theory Spec2Isabelle
  imports Complex_Main "HOL-Library.Sublist"
begin

section \<open>Python exceptions and abrupt completion\<close>

text \<open>
  The client catches exceptions by class, \<^verbatim>\<open>except (RuntimeError, OSError)\<close>, so the
  model keeps the class of an exception and the single-inheritance chain behind it.
  \<open>Subclass n c\<close> is a class named \<open>n\<close> derived from \<open>c\<close> (\<^verbatim>\<open>ConnectionError\<close> from
  \<^verbatim>\<open>OSError\<close>, a library's \<^verbatim>\<open>WebSocketException\<close> from \<^verbatim>\<open>Exception\<close>, a user's own class).
\<close>

datatype exc_class =
    BaseException | Exception | RuntimeError | OSError | LookupError | KeyError
  | ValueError | TypeError | ImportError | KeyboardInterrupt
  | Subclass string exc_class

fun mro :: "exc_class \<Rightarrow> exc_class list" where
  "mro BaseException = [BaseException]"
| "mro Exception = [Exception, BaseException]"
| "mro RuntimeError = [RuntimeError, Exception, BaseException]"
| "mro OSError = [OSError, Exception, BaseException]"
| "mro LookupError = [LookupError, Exception, BaseException]"
| "mro KeyError = [KeyError, LookupError, Exception, BaseException]"
| "mro ValueError = [ValueError, Exception, BaseException]"
| "mro TypeError = [TypeError, Exception, BaseException]"
| "mro ImportError = [ImportError, Exception, BaseException]"
| "mro KeyboardInterrupt = [KeyboardInterrupt, BaseException]"
| "mro (Subclass n c) = Subclass n c # mro c"

datatype py_exception = PyExc (exc_type: exc_class) (exc_msg: string)

text \<open>\<^verbatim>\<open>isinstance(exc, classes)\<close>, the test an \<^verbatim>\<open>except\<close> clause makes.\<close>

definition isinstance :: "py_exception \<Rightarrow> exc_class list \<Rightarrow> bool" where
  "isinstance exc classes = (\<exists>c \<in> set classes. c \<in> set (mro (exc_type exc)))"

text \<open>
  A call either returns a value or raises. The state reached is kept in both cases:
  what a Python function assigned before it raised stays assigned.
\<close>

datatype 'a outcome = Returned 'a | Raised py_exception

section \<open>The logger\<close>

datatype py_logger = ModuleLogger | UserLogger nat

datatype log_level = DEBUG | WARNING

datatype log_arg = StrArg string | ExcArg py_exception | IntArg int | NoneArg

type_synonym log_record = "py_logger \<times> log_level \<times> string \<times> log_arg list"

definition opt_int_arg :: "int option \<Rightarrow> log_arg" where
  "opt_int_arg v = (case v of None \<Rightarrow> NoneArg | Some i \<Rightarrow> IntArg i)"

definition opt_str_arg :: "string option \<Rightarrow> log_arg" where
  "opt_str_arg v = (case v of None \<Rightarrow> NoneArg | Some s \<Rightarrow> StrArg s)"

section \<open>The client object and the world around it\<close>

text \<open>
  Everything outside the class (the user's callbacks, the websocket library, the thread
  library, the clock) acts on an external state of type \<open>'x\<close>. A user callback is a
  function on that state which may raise. It may read the client's \<^verbatim>\<open>connected\<close> property,
  so it is given the value the property has when it is called. The events the worker
  thread delivers are the handler calls themselves, taken one at a time; external code
  does not assign the attributes of the client object.
\<close>

type_synonym ws_handle = nat
type_synonym thread_handle = nat
type_synonym kwargs = "(string \<times> string) list"
type_synonym 'x callback = "bool \<Rightarrow> 'x \<Rightarrow> unit outcome \<times> 'x"

text \<open>
  The attributes of \<^verbatim>\<open>DreoWebSocketClient\<close>. \<open>ws\<close>, \<open>thread\<close>, \<open>logger\<close>, \<open>connected_flag\<close>
  and \<open>user_on_*\<close> are \<^verbatim>\<open>_ws\<close>, \<^verbatim>\<open>_thread\<close>, \<^verbatim>\<open>_logger\<close>, \<^verbatim>\<open>_connected\<close> and \<^verbatim>\<open>_user_on_*\<close>.
\<close>

record 'x DreoWebSocketClient =
  access_token :: string
  ws :: "ws_handle option"
  thread :: "thread_handle option"
  logger :: py_logger
  connected_flag :: bool
  user_on_message :: "(string \<Rightarrow> 'x callback) option"
  user_on_error :: "(py_exception \<Rightarrow> 'x callback) option"
  user_on_close :: "(int option \<Rightarrow> string option \<Rightarrow> 'x callback) option"
  user_on_open :: "'x callback option"

record 'x world =
  self :: "'x DreoWebSocketClient"
  logged :: "log_record list"
  ext :: 'x

text \<open>
  What the module imports and does not define: the constants of \<^verbatim>\<open>const\<close>, the static
  methods of \<^verbatim>\<open>Helpers\<close>, and the websocket and threading libraries. They are parameters.
  A template is the \<^verbatim>\<open>format\<close> method of a string constant, applied to its positional
  arguments.
\<close>

type_synonym template = "string list \<Rightarrow> string outcome"

record 'x env =
  WS_BASE_URL :: template
  ENDPOINTS :: "string \<rightharpoonup> template"
  USER_AGENT :: string
  EU_BASE_URL :: string
  clean_token :: "string \<Rightarrow> string outcome"
  timestamp :: "'x \<Rightarrow> string outcome \<times> 'x"
  parse_token_and_get_endpoint :: "string \<Rightarrow> string outcome"
  import_module :: "string \<Rightarrow> 'x \<Rightarrow> unit outcome \<times> 'x"
  WebSocketApp :: "string \<Rightarrow> string list \<Rightarrow> 'x \<Rightarrow> ws_handle outcome \<times> 'x"
  Thread :: "ws_handle \<Rightarrow> kwargs \<Rightarrow> 'x \<Rightarrow> thread_handle outcome \<times> 'x"
  thread_start :: "thread_handle \<Rightarrow> 'x \<Rightarrow> unit outcome \<times> 'x"
  ws_close :: "ws_handle \<Rightarrow> 'x \<Rightarrow> unit outcome \<times> 'x"
  thread_is_alive :: "thread_handle \<Rightarrow> 'x \<Rightarrow> bool \<times> 'x"
  thread_join :: "thread_handle \<Rightarrow> real \<Rightarrow> 'x \<Rightarrow> unit outcome \<times> 'x"

section \<open>Sequencing, external calls, try/except\<close>

definition bind :: "'a outcome \<times> 's \<Rightarrow> ('a \<Rightarrow> 's \<Rightarrow> 'b outcome \<times> 's) \<Rightarrow> 'b outcome \<times> 's" where
  "bind r k = (case r of (Raised e, s) \<Rightarrow> (Raised e, s) | (Returned v, s) \<Rightarrow> k v s)"

definition call :: "('x \<Rightarrow> 'a \<times> 'x) \<Rightarrow> 'x world \<Rightarrow> 'a \<times> 'x world" where
  "call f w = (case f (ext w) of (r, x) \<Rightarrow> (r, w\<lparr>ext := x\<rparr>))"

text \<open>Calling a user callback: it sees the connected flag as it is at that moment.\<close>

definition invoke :: "'x callback \<Rightarrow> 'x world \<Rightarrow> unit outcome \<times> 'x world" where
  "invoke cb w = call (cb (connected_flag (self w))) w"

definition try_except ::
  "unit outcome \<times> 's \<Rightarrow> exc_class list \<Rightarrow> (py_exception \<Rightarrow> 's \<Rightarrow> 's) \<Rightarrow> unit outcome \<times> 's" where
  "try_except r classes handler =
     (case r of
        (Raised exc, s) \<Rightarrow>
          if isinstance exc classes then (Returned (), handler exc s) else (Raised exc, s)
      | (Returned v, s) \<Rightarrow> (Returned v, s))"

definition log_call :: "log_level \<Rightarrow> string \<Rightarrow> log_arg list \<Rightarrow> 'x world \<Rightarrow> 'x world" where
  "log_call level fmt args w = w\<lparr>logged := logged w @ [(logger (self w), level, fmt, args)]\<rparr>"

section \<open>The public API\<close>

definition init :: "string \<Rightarrow> py_logger option \<Rightarrow> 'x DreoWebSocketClient" where
  "init token lg =
     \<lparr>access_token = token, ws = None, thread = None,
      logger = (case lg of None \<Rightarrow> ModuleLogger | Some l \<Rightarrow> l),
      connected_flag = False,
      user_on_message = None, user_on_error = None, user_on_close = None,
      user_on_open = None\<rparr>"

definition build_ws_url :: "'x env \<Rightarrow> 'x world \<Rightarrow> string outcome \<times> 'x world" where
  "build_ws_url env w =
     bind (clean_token env (access_token (self w)), w) (\<lambda>clean_tok w.
     bind (call (timestamp env) w) (\<lambda>ts w.
     bind (parse_token_and_get_endpoint env (access_token (self w)), w) (\<lambda>endpoint w.
       let region_code = (if endpoint = EU_BASE_URL env then ''eu'' else ''us'') in
       bind (WS_BASE_URL env [region_code], w) (\<lambda>base w.
       bind (case ENDPOINTS env ''WS_LOGIN'' of
               None \<Rightarrow> (Raised (PyExc KeyError ''WS_LOGIN''), w)
             | Some tpl \<Rightarrow> (tpl [clean_tok, ts], w)) (\<lambda>path w.
         (Returned (base @ path), w))))))"

definition connect ::
  "'x env \<Rightarrow> (string \<Rightarrow> 'x callback) option \<Rightarrow> (py_exception \<Rightarrow> 'x callback) option \<Rightarrow>
   (int option \<Rightarrow> string option \<Rightarrow> 'x callback) option \<Rightarrow> 'x callback option \<Rightarrow>
   kwargs option \<Rightarrow> 'x world \<Rightarrow> unit outcome \<times> 'x world" where
  "connect env on_message on_error on_close on_open run_forever_kwargs w =
     (let w = w\<lparr>self := (self w)\<lparr>user_on_message := on_message\<rparr>\<rparr>;
          w = w\<lparr>self := (self w)\<lparr>user_on_error := on_error\<rparr>\<rparr>;
          w = w\<lparr>self := (self w)\<lparr>user_on_close := on_close\<rparr>\<rparr>;
          w = w\<lparr>self := (self w)\<lparr>user_on_open := on_open\<rparr>\<rparr>
      in
      bind (build_ws_url env w) (\<lambda>url w.
        let headers = [''UA: '' @ USER_AGENT env];
            w = log_call DEBUG ''Connecting WebSocket to %s'' [StrArg url] w
        in
        bind (call (import_module env ''websocket'') w) (\<lambda>_ w.
        bind (call (WebSocketApp env url headers) w) (\<lambda>h w.
          let w = w\<lparr>self := (self w)\<lparr>ws := Some h\<rparr>\<rparr> in
          bind (call (Thread env h (case run_forever_kwargs of None \<Rightarrow> [] | Some k \<Rightarrow> k)) w) (\<lambda>t w.
            let w = w\<lparr>self := (self w)\<lparr>thread := Some t\<rparr>\<rparr> in
            call (thread_start env t) w)))))"

definition disconnect :: "'x env \<Rightarrow> real \<Rightarrow> 'x world \<Rightarrow> unit outcome \<times> 'x world" where
  "disconnect env timeout w =
     bind (case ws (self w) of
             None \<Rightarrow> (Returned (), w)
           | Some h \<Rightarrow>
               try_except (call (ws_close env h) w) [RuntimeError, OSError] (\<lambda>exc w. w)) (\<lambda>_ w.
     bind (case thread (self w) of
             None \<Rightarrow> (Returned (), w)
           | Some t \<Rightarrow>
               (case call (thread_is_alive env t) w of
                  (alive, w) \<Rightarrow>
                    if alive then call (thread_join env t timeout) w else (Returned (), w))) (\<lambda>_ w.
       (Returned (), w\<lparr>self := (self w)\<lparr>connected_flag := False\<rparr>\<rparr>)))"

definition connected :: "'x world \<Rightarrow> bool" where
  "connected w = connected_flag (self w)"

section \<open>The handlers given to the websocket library\<close>

definition on_open :: "ws_handle \<Rightarrow> 'x world \<Rightarrow> unit outcome \<times> 'x world" where
  "on_open ws_arg w =
     (let w = w\<lparr>self := (self w)\<lparr>connected_flag := True\<rparr>\<rparr>;
          w = log_call DEBUG ''WebSocket opened'' [] w
      in
      case user_on_open (self w) of
        None \<Rightarrow> (Returned (), w)
      | Some cb \<Rightarrow>
          try_except (invoke cb w) [RuntimeError, OSError]
            (\<lambda>exc. log_call WARNING ''on_open callback error: %s'' [ExcArg exc]))"

definition on_message :: "ws_handle \<Rightarrow> string \<Rightarrow> 'x world \<Rightarrow> unit outcome \<times> 'x world" where
  "on_message ws_arg message w =
     (case user_on_message (self w) of
        None \<Rightarrow> (Returned (), w)
      | Some cb \<Rightarrow>
          try_except (invoke (cb message) w) [RuntimeError, OSError]
            (\<lambda>exc. log_call WARNING ''on_message callback error: %s'' [ExcArg exc]))"

definition on_error :: "ws_handle \<Rightarrow> py_exception \<Rightarrow> 'x world \<Rightarrow> unit outcome \<times> 'x world" where
  "on_error ws_arg error w =
     (let w = log_call DEBUG ''WebSocket error: %s'' [ExcArg error] w in
      case user_on_error (self w) of
        None \<Rightarrow> (Returned (), w)
      | Some cb \<Rightarrow>
          try_except (invoke (cb error) w) [RuntimeError, OSError]
            (\<lambda>exc. log_call WARNING ''on_error callback error: %s'' [ExcArg exc]))"

definition on_close ::
  "ws_handle \<Rightarrow> int option \<Rightarrow> string option \<Rightarrow> 'x world \<Rightarrow> unit outcome \<times> 'x world" where
  "on_close ws_arg status_code reason w =
     (let w = w\<lparr>self := (self w)\<lparr>connected_flag := False\<rparr>\<rparr>;
          w = log_call DEBUG ''WebSocket closed: code=%s reason=%s''
                [opt_int_arg status_code, opt_str_arg reason] w
      in
      case user_on_close (self w) of
        None \<Rightarrow> (Returned (), w)
      | Some cb \<Rightarrow>
          try_except (invoke (cb status_code reason) w) [RuntimeError, OSError]
            (\<lambda>exc. log_call WARNING ''on_close callback error: %s'' [ExcArg exc]))"

section \<open>A concrete environment\<close>

text \<open>
  One environment and a few worlds on which the theorems below are run. The external
  state is the list of the external calls made so far, so a call that is made is seen.
\<close>

definition demo_login :: template where
  "demo_login args =
     (case args of
        [t, ts] \<Rightarrow> Returned (''/ws?accessToken='' @ t @ ''&timestamp='' @ ts)
      | _ \<Rightarrow> Raised (PyExc (Subclass ''IndexError'' LookupError) ''format''))"

definition demo_env :: "string list env" where
  "demo_env =
     \<lparr>WS_BASE_URL = (\<lambda>args. case args of
          [r] \<Rightarrow> Returned (''wss://wsb-'' @ r @ ''.example.com'')
        | _ \<Rightarrow> Raised (PyExc (Subclass ''IndexError'' LookupError) ''format'')),
      ENDPOINTS = (\<lambda>k. if k = ''WS_LOGIN'' then Some demo_login else None),
      USER_AGENT = ''demo/1.0'',
      EU_BASE_URL = ''https://eu.example.com'',
      clean_token = (\<lambda>t. Returned (takeWhile (\<lambda>c. c \<noteq> CHR '':'') t)),
      timestamp = (\<lambda>x. (Returned ''1700000000000'', x @ [''timestamp''])),
      parse_token_and_get_endpoint = (\<lambda>t. Returned
        (if dropWhile (\<lambda>c. c \<noteq> CHR '':'') t = '':EU''
         then ''https://eu.example.com'' else ''https://us.example.com'')),
      import_module = (\<lambda>name x. (Returned (), x @ [''import''])),
      WebSocketApp = (\<lambda>url headers x. (Returned 1, x @ [''WebSocketApp'', url] @ headers)),
      Thread = (\<lambda>h k x. (Returned 2, x @ [''Thread''])),
      thread_start = (\<lambda>t x. (Returned (), x @ [''start''])),
      ws_close = (\<lambda>h x. (Returned (), x @ [''close''])),
      thread_is_alive = (\<lambda>t x. (True, x @ [''is_alive''])),
      thread_join = (\<lambda>t timeout x. (Returned (), x @ [''join'']))\<rparr>"

text \<open>The same environment with a \<^verbatim>\<open>close()\<close> that raises, and with a clock that raises.\<close>

definition closing_env :: "py_exception \<Rightarrow> string list env" where
  "closing_env exc = demo_env\<lparr>ws_close := (\<lambda>h x. (Raised exc, x @ [''close'']))\<rparr>"

text \<open>
  A websocket library whose \<^verbatim>\<open>close()\<close> returns on an open connection and raises its own
  exception on one that is closed already.
\<close>

definition already_closed :: py_exception where
  "already_closed =
     PyExc (Subclass ''WebSocketConnectionClosedException''
             (Subclass ''WebSocketException'' Exception)) ''socket is already closed.''"


definition failing_env :: "py_exception \<Rightarrow> string list env" where
  "failing_env exc = demo_env\<lparr>timestamp := (\<lambda>x. (Raised exc, x @ [''timestamp'']))\<rparr>"

text \<open>A client just constructed.\<close>

definition demo_world :: "string \<Rightarrow> string list world" where
  "demo_world token = \<lparr>self = init token None, logged = [], ext = []\<rparr>"

text \<open>A client after \<^verbatim>\<open>connect\<close> and the open event.\<close>

definition connected_world :: "string list world" where
  "connected_world =
     \<lparr>self = (init ''abc.def.ghi'' None)\<lparr>ws := Some 1, thread := Some 2, connected_flag := True\<rparr>,
      logged = [], ext = []\<rparr>"

text \<open>A client whose four callbacks all raise the given exception.\<close>

definition raising_world :: "py_exception \<Rightarrow> string list world" where
  "raising_world exc =
     \<lparr>self = (init ''abc.def.ghi'' None)
        \<lparr>user_on_message := Some (\<lambda>m c x. (Raised exc, x @ [''on_message'', m])),
         user_on_error := Some (\<lambda>e c x. (Raised exc, x @ [''on_error''])),
         user_on_close := Some (\<lambda>code r c x. (Raised exc, x @ [''on_close''])),
         user_on_open := Some (\<lambda>c x. (Raised exc, x @ [''on_open'']))\<rparr>,
      logged = [], ext = []\<rparr>"

text \<open>
  A client whose \<^verbatim>\<open>on_open\<close> callback returns, after writing down whether it saw the
  client connected.
\<close>

definition open_callback :: "string list callback" where
  "open_callback c x =
     (Returned (), x @ [if c then ''on_open: connected'' else ''on_open: not connected''])"

definition listening_world :: "string list world" where
  "listening_world =
     \<lparr>self = (init ''abc.def.ghi'' None)\<lparr>user_on_open := Some open_callback\<rparr>,
      logged = [], ext = []\<rparr>"

section \<open>Basic facts\<close>

lemma bind_Returned [simp]: "bind (Returned v, s) k = k v s"
  by (simp add: bind_def)

lemma bind_Raised [simp]: "bind (Raised e, s) k = (Raised e, s)"
  by (simp add: bind_def)

lemma call_eq: "f (ext w) = (r, x) \<Longrightarrow> call f w = (r, w\<lparr>ext := x\<rparr>)"
  by (simp add: call_def)

lemma self_call [simp]: "self (snd (call f w)) = self w"
  by (simp add: call_def split: prod.splits)

lemma logged_call [simp]: "logged (snd (call f w)) = logged w"
  by (simp add: call_def split: prod.splits)

lemma ext_call [simp]: "ext (snd (call f w)) = snd (f (ext w))"
  by (simp add: call_def split: prod.splits)

lemma fst_call [simp]: "fst (call f w) = fst (f (ext w))"
  by (simp add: call_def split: prod.splits)

lemma self_invoke [simp]: "self (snd (invoke cb w)) = self w"
  by (simp add: invoke_def)

lemma logged_invoke [simp]: "logged (snd (invoke cb w)) = logged w"
  by (simp add: invoke_def)

lemma ext_invoke [simp]:
  "ext (snd (invoke cb w)) = snd (cb (connected_flag (self w)) (ext w))"
  by (simp add: invoke_def)

lemma fst_invoke [simp]:
  "fst (invoke cb w) = fst (cb (connected_flag (self w)) (ext w))"
  by (simp add: invoke_def)

lemma try_except_Returned [simp]: "try_except (Returned v, s) cs hdl = (Returned v, s)"
  by (simp add: try_except_def)

lemma try_except_caught [simp]:
  "isinstance exc cs \<Longrightarrow> try_except (Raised exc, s) cs hdl = (Returned (), hdl exc s)"
  by (simp add: try_except_def)

lemma try_except_uncaught [simp]:
  "\<not> isinstance exc cs \<Longrightarrow> try_except (Raised exc, s) cs hdl = (Raised exc, s)"
  by (simp add: try_except_def)

lemma self_log_call [simp]: "self (log_call lv fmt args w) = self w"
  by (simp add: log_call_def)

lemma ext_log_call [simp]: "ext (log_call lv fmt args w) = ext w"
  by (simp add: log_call_def)


section \<open>The login URL\<close>

text \<open>
  \<^verbatim>\<open>_build_ws_url\<close> returns exactly when each helper and each template returns, and only the
  clock touches the world.
\<close>

lemma build_ws_url_Returned_iff:
  "build_ws_url env w = (Returned url, w') \<longleftrightarrow>
     (\<exists>clean_tok ts x endpoint base tpl path.
        clean_token env (access_token (self w)) = Returned clean_tok \<and>
        timestamp env (ext w) = (Returned ts, x) \<and>
        parse_token_and_get_endpoint env (access_token (self w)) = Returned endpoint \<and>
        WS_BASE_URL env [if endpoint = EU_BASE_URL env then ''eu'' else ''us''] = Returned base \<and>
        ENDPOINTS env ''WS_LOGIN'' = Some tpl \<and>
        tpl [clean_tok, ts] = Returned path \<and>
        url = base @ path \<and> w' = w\<lparr>ext := x\<rparr>)"
  unfolding build_ws_url_def bind_def call_def Let_def
  by (auto split: outcome.splits prod.splits option.splits)

lemma build_ws_url_self: "self (snd (build_ws_url env w)) = self w"
  unfolding build_ws_url_def bind_def call_def Let_def
  by (auto split: outcome.splits prod.splits option.splits)

lemma build_ws_url_logged: "logged (snd (build_ws_url env w)) = logged w"
  unfolding build_ws_url_def bind_def call_def Let_def
  by (auto split: outcome.splits prod.splits option.splits)

lemma demo_build_eu:
  "build_ws_url demo_env (demo_world ''abc.def:EU'') =
     (Returned ''wss://wsb-eu.example.com/ws?accessToken=abc.def&timestamp=1700000000000'',
      (demo_world ''abc.def:EU'')\<lparr>ext := [''timestamp'']\<rparr>)"
  by (simp add: build_ws_url_def bind_def call_def demo_env_def demo_login_def demo_world_def init_def)

lemma demo_build_us:
  "build_ws_url demo_env (demo_world ''abc.def.ghi'') =
     (Returned ''wss://wsb-us.example.com/ws?accessToken=abc.def.ghi&timestamp=1700000000000'',
      (demo_world ''abc.def.ghi'')\<lparr>ext := [''timestamp'']\<rparr>)"
  by (simp add: build_ws_url_def bind_def call_def demo_env_def demo_login_def demo_world_def init_def)

text \<open>
  C1. When the helpers and the templates return, \<^verbatim>\<open>_build_ws_url\<close> returns a URL, and the
  URL starts with the base URL template formatted with the region code \<open>''eu''\<close> if
  \<^verbatim>\<open>parse_token_and_get_endpoint\<close> returned \<^verbatim>\<open>EU_BASE_URL\<close> for the token, and with \<open>''us''\<close>
  for every other endpoint it returned.
\<close>

theorem build_ws_url_region:
  assumes "clean_token env (access_token (self w)) = Returned clean_tok"
      and "timestamp env (ext w) = (Returned ts, x)"
      and "parse_token_and_get_endpoint env (access_token (self w)) = Returned endpoint"
      and "WS_BASE_URL env [''eu''] = Returned base_eu"
      and "WS_BASE_URL env [''us''] = Returned base_us"
      and "ENDPOINTS env ''WS_LOGIN'' = Some tpl"
      and "tpl [clean_tok, ts] = Returned path"
  shows "\<exists>url w'. build_ws_url env w = (Returned url, w') \<and>
           prefix (if endpoint = EU_BASE_URL env then base_eu else base_us) url"
proof (cases "endpoint = EU_BASE_URL env")
  case True
  with assms have "build_ws_url env w = (Returned (base_eu @ path), w\<lparr>ext := x\<rparr>)"
    by (simp add: build_ws_url_def call_def)
  with True show ?thesis by simp
next
  case False
  with assms have "build_ws_url env w = (Returned (base_us @ path), w\<lparr>ext := x\<rparr>)"
    by (simp add: build_ws_url_def call_def)
  with False show ?thesis by simp
qed

theorem build_ws_url_region_witness:
  "(\<exists>url w'. build_ws_url demo_env (demo_world ''abc.def:EU'') = (Returned url, w') \<and>
      prefix ''wss://wsb-eu.example.com'' url) \<and>
   (\<exists>url w'. build_ws_url demo_env (demo_world ''abc.def.ghi'') = (Returned url, w') \<and>
      prefix ''wss://wsb-us.example.com'' url)"
proof -
  let ?eu = "demo_world ''abc.def:EU''" and ?us = "demo_world ''abc.def.ghi''"
  have c: "clean_token demo_env (access_token (self ?eu)) = Returned ''abc.def''"
    "clean_token demo_env (access_token (self ?us)) = Returned ''abc.def.ghi''"
    by (simp_all add: demo_env_def demo_world_def init_def)
  have t: "timestamp demo_env (ext ?eu) = (Returned ''1700000000000'', [''timestamp''])"
    "timestamp demo_env (ext ?us) = (Returned ''1700000000000'', [''timestamp''])"
    by (simp_all add: demo_env_def demo_world_def)
  have p: "parse_token_and_get_endpoint demo_env (access_token (self ?eu))
             = Returned ''https://eu.example.com''"
    "parse_token_and_get_endpoint demo_env (access_token (self ?us))
             = Returned ''https://us.example.com''"
    by (simp_all add: demo_env_def demo_world_def init_def)
  have b: "WS_BASE_URL demo_env [''eu''] = Returned ''wss://wsb-eu.example.com''"
    "WS_BASE_URL demo_env [''us''] = Returned ''wss://wsb-us.example.com''"
    by (simp_all add: demo_env_def)
  have l: "ENDPOINTS demo_env ''WS_LOGIN'' = Some demo_login"
    by (simp add: demo_env_def)
  have f: "demo_login [''abc.def'', ''1700000000000'']
             = Returned ''/ws?accessToken=abc.def&timestamp=1700000000000''"
    "demo_login [''abc.def.ghi'', ''1700000000000'']
             = Returned ''/ws?accessToken=abc.def.ghi&timestamp=1700000000000''"
    by (simp_all add: demo_login_def)
  have e: "EU_BASE_URL demo_env = ''https://eu.example.com''"
    by (simp add: demo_env_def)
  show ?thesis
    using build_ws_url_region [OF c(1) t(1) p(1) b(1) b(2) l f(1)]
      build_ws_url_region [OF c(2) t(2) p(2) b(1) b(2) l f(2)]
    by (simp add: e)
qed

text \<open>
  C2. When the helpers and the two templates return, \<^verbatim>\<open>_build_ws_url\<close> returns the base URL
  for the region followed by the login path formatted with the cleaned token and the
  timestamp, and nothing else.
\<close>

theorem build_ws_url_concat:
  assumes "clean_token env (access_token (self w)) = Returned clean_tok"
      and "timestamp env (ext w) = (Returned ts, x)"
      and "parse_token_and_get_endpoint env (access_token (self w)) = Returned endpoint"
      and "WS_BASE_URL env [if endpoint = EU_BASE_URL env then ''eu'' else ''us''] = Returned base"
      and "ENDPOINTS env ''WS_LOGIN'' = Some tpl"
      and "tpl [clean_tok, ts] = Returned path"
  shows "build_ws_url env w = (Returned (base @ path), w\<lparr>ext := x\<rparr>)"
  using assms by (simp add: build_ws_url_def bind_def call_def)

theorem build_ws_url_concat_witness:
  "build_ws_url demo_env (demo_world ''abc.def:EU'') =
     (Returned (''wss://wsb-eu.example.com'' @ ''/ws?accessToken=abc.def&timestamp=1700000000000''),
      (demo_world ''abc.def:EU'')\<lparr>ext := [''timestamp'']\<rparr>)"
proof -
  let ?w = "demo_world ''abc.def:EU''"
  have 1: "clean_token demo_env (access_token (self ?w)) = Returned ''abc.def''"
    by (simp add: demo_env_def demo_world_def init_def)
  have 2: "timestamp demo_env (ext ?w) = (Returned ''1700000000000'', [''timestamp''])"
    by (simp add: demo_env_def demo_world_def)
  have 3: "parse_token_and_get_endpoint demo_env (access_token (self ?w))
             = Returned ''https://eu.example.com''"
    by (simp add: demo_env_def demo_world_def init_def)
  have 4: "WS_BASE_URL demo_env
             [if ''https://eu.example.com'' = EU_BASE_URL demo_env then ''eu'' else ''us'']
             = Returned ''wss://wsb-eu.example.com''"
    by (simp add: demo_env_def)
  have 5: "ENDPOINTS demo_env ''WS_LOGIN'' = Some demo_login"
    by (simp add: demo_env_def)
  have 6: "demo_login [''abc.def'', ''1700000000000'']
             = Returned ''/ws?accessToken=abc.def&timestamp=1700000000000''"
    by (simp add: demo_login_def)
  show ?thesis
    using build_ws_url_concat [OF 1 2 3 4 5 6] by simp
qed

section \<open>Forwarding events to the user's callbacks\<close>

text \<open>
  Each handler wraps the user's callback in \<^verbatim>\<open>try ... except (RuntimeError, OSError)\<close>.
  First the classes the clause names: the handler returns, its last log record is the
  warning that names the exception, and what the callback did before raising is kept.
\<close>

lemma on_open_caught:
  assumes "isinstance exc [RuntimeError, OSError]"
      and "user_on_open (self w) = Some cb" and "cb True (ext w) = (Raised exc, x)"
  shows "fst (on_open h w) = Returned () \<and>
         last (logged (snd (on_open h w)))
           = (logger (self w), WARNING, ''on_open callback error: %s'', [ExcArg exc]) \<and>
         ext (snd (on_open h w)) = x"
  using assms by (simp add: on_open_def Let_def invoke_def call_def log_call_def)

lemma on_message_caught:
  assumes "isinstance exc [RuntimeError, OSError]"
      and "user_on_message (self w) = Some cb"
      and "cb m (connected_flag (self w)) (ext w) = (Raised exc, x)"
  shows "fst (on_message h m w) = Returned () \<and>
         last (logged (snd (on_message h m w)))
           = (logger (self w), WARNING, ''on_message callback error: %s'', [ExcArg exc]) \<and>
         ext (snd (on_message h m w)) = x"
  using assms by (simp add: on_message_def Let_def invoke_def call_def log_call_def)

lemma on_error_caught:
  assumes "isinstance exc [RuntimeError, OSError]"
      and "user_on_error (self w) = Some cb"
      and "cb err (connected_flag (self w)) (ext w) = (Raised exc, x)"
  shows "fst (on_error h err w) = Returned () \<and>
         last (logged (snd (on_error h err w)))
           = (logger (self w), WARNING, ''on_error callback error: %s'', [ExcArg exc]) \<and>
         ext (snd (on_error h err w)) = x"
  using assms by (simp add: on_error_def Let_def invoke_def call_def log_call_def)

lemma on_close_caught:
  assumes "isinstance exc [RuntimeError, OSError]"
      and "user_on_close (self w) = Some cb" and "cb code reason False (ext w) = (Raised exc, x)"
  shows "fst (on_close h code reason w) = Returned () \<and>
         last (logged (snd (on_close h code reason w)))
           = (logger (self w), WARNING, ''on_close callback error: %s'', [ExcArg exc]) \<and>
         ext (snd (on_close h code reason w)) = x"
  using assms by (simp add: on_close_def Let_def invoke_def call_def log_call_def)

lemma on_message_self: "self (snd (on_message h m w)) = self w"
  by (auto simp: on_message_def invoke_def call_def try_except_def log_call_def
      split: option.splits prod.splits outcome.splits)

lemma on_message_ext:
  "user_on_message (self w) = Some cb \<Longrightarrow>
     ext (snd (on_message h m w)) = snd (cb m (connected_flag (self w)) (ext w))"
  by (auto simp: on_message_def invoke_def call_def try_except_def log_call_def
      split: option.splits prod.splits outcome.splits)

text \<open>After a message callback raised, the next message event reaches the callback again.\<close>

lemma on_message_next:
  assumes "user_on_message (self w) = Some cb"
      and "cb m (connected_flag (self w)) (ext w) = (Raised exc, x)"
  shows "ext (snd (on_message h m' (snd (on_message h m w))))
           = snd (cb m' (connected_flag (self w)) x)"
proof -
  have "user_on_message (self (snd (on_message h m w))) = Some cb"
    using assms(1) by (simp add: on_message_self)
  then have "ext (snd (on_message h m' (snd (on_message h m w))))
               = snd (cb m' (connected_flag (self (snd (on_message h m w))))
                       (ext (snd (on_message h m w))))"
    by (rule on_message_ext)
  also have "ext (snd (on_message h m w)) = x"
    using assms by (simp add: on_message_ext)
  finally show ?thesis by (simp add: on_message_self)
qed

lemma callback_error_isolated:
  assumes "isinstance exc [RuntimeError, OSError]"
  shows
    "(user_on_open (self w) = Some cbo \<longrightarrow> cbo True (ext w) = (Raised exc, xo) \<longrightarrow>
        fst (on_open h w) = Returned () \<and>
        last (logged (snd (on_open h w)))
          = (logger (self w), WARNING, ''on_open callback error: %s'', [ExcArg exc]) \<and>
        ext (snd (on_open h w)) = xo) \<and>
     (user_on_message (self w) = Some cbm \<longrightarrow>
      cbm m (connected_flag (self w)) (ext w) = (Raised exc, xm) \<longrightarrow>
        fst (on_message h m w) = Returned () \<and>
        last (logged (snd (on_message h m w)))
          = (logger (self w), WARNING, ''on_message callback error: %s'', [ExcArg exc]) \<and>
        ext (snd (on_message h m w)) = xm \<and>
        ext (snd (on_message h m' (snd (on_message h m w))))
          = snd (cbm m' (connected_flag (self w)) xm)) \<and>
     (user_on_error (self w) = Some cbe \<longrightarrow>
      cbe err (connected_flag (self w)) (ext w) = (Raised exc, xe) \<longrightarrow>
        fst (on_error h err w) = Returned () \<and>
        last (logged (snd (on_error h err w)))
          = (logger (self w), WARNING, ''on_error callback error: %s'', [ExcArg exc]) \<and>
        ext (snd (on_error h err w)) = xe) \<and>
     (user_on_close (self w) = Some cbc \<longrightarrow> cbc code reason False (ext w) = (Raised exc, xc) \<longrightarrow>
        fst (on_close h code reason w) = Returned () \<and>
        last (logged (snd (on_close h code reason w)))
          = (logger (self w), WARNING, ''on_close callback error: %s'', [ExcArg exc]) \<and>
        ext (snd (on_close h code reason w)) = xc)"
    (is "?open \<and> ?message \<and> ?error \<and> ?close")
proof -
  have o: ?open
    using on_open_caught [OF assms, of w cbo xo h] by blast
  have m: ?message
    using on_message_caught [OF assms, of w cbm m xm h] on_message_next [of w cbm m exc xm h m']
    by blast
  have e: ?error
    using on_error_caught [OF assms, of w cbe err xe h] by blast
  have c: ?close
    using on_close_caught [OF assms, of w cbc code reason xc h] by blast
  from o m e c show ?thesis by blast
qed

lemma callback_error_isolated_demo:
  "fst (on_open 1 (raising_world (PyExc (Subclass ''ConnectionError'' OSError) ''reset''))) = Returned () \<and>
   ext (snd (on_open 1 (raising_world (PyExc (Subclass ''ConnectionError'' OSError) ''reset''))))
     = [''on_open''] \<and>
   fst (on_message 1 ''a'' (raising_world (PyExc (Subclass ''ConnectionError'' OSError) ''reset'')))
     = Returned () \<and>
   last (logged (snd (on_message 1 ''a''
       (raising_world (PyExc (Subclass ''ConnectionError'' OSError) ''reset'')))))
     = (ModuleLogger, WARNING, ''on_message callback error: %s'',
        [ExcArg (PyExc (Subclass ''ConnectionError'' OSError) ''reset'')]) \<and>
   ext (snd (on_message 1 ''b'' (snd (on_message 1 ''a''
       (raising_world (PyExc (Subclass ''ConnectionError'' OSError) ''reset''))))))
     = [''on_message'', ''a'', ''on_message'', ''b''] \<and>
   fst (on_error 1 (PyExc OSError ''down'')
       (raising_world (PyExc (Subclass ''ConnectionError'' OSError) ''reset''))) = Returned () \<and>
   fst (on_close 1 (Some 1000) (Some ''bye'')
       (raising_world (PyExc (Subclass ''ConnectionError'' OSError) ''reset''))) = Returned ()"
proof -
  let ?e = "PyExc (Subclass ''ConnectionError'' OSError) ''reset''"
  have i: "isinstance ?e [RuntimeError, OSError]"
    by (simp add: isinstance_def)
  show ?thesis
    using callback_error_isolated [OF i, where w = "raising_world ?e"
        and cbo = "\<lambda>c x. (Raised ?e, x @ [''on_open''])" and xo = "[''on_open'']"
        and cbm = "\<lambda>m c x. (Raised ?e, x @ [''on_message'', m])" and m = "''a''"
        and xm = "[''on_message'', ''a'']" and m' = "''b''"
        and cbe = "\<lambda>e c x. (Raised ?e, x @ [''on_error''])" and err = "PyExc OSError ''down''"
        and xe = "[''on_error'']"
        and cbc = "\<lambda>code r c x. (Raised ?e, x @ [''on_close''])" and code = "Some 1000"
        and reason = "Some ''bye''" and xc = "[''on_close'']" and h = 1]
    by (simp add: raising_world_def init_def)
qed

text \<open>Then every other class: the clause does not match and the exception leaves the handler.\<close>

lemma on_open_uncaught:
  assumes "\<not> isinstance exc [RuntimeError, OSError]"
      and "user_on_open (self w) = Some cb" and "cb True (ext w) = (Raised exc, x)"
  shows "on_open h w =
           (Raised exc, (log_call DEBUG ''WebSocket opened'' []
                          (w\<lparr>self := (self w)\<lparr>connected_flag := True\<rparr>\<rparr>))\<lparr>ext := x\<rparr>)"
  using assms by (simp add: on_open_def Let_def invoke_def call_def)

lemma on_message_uncaught:
  assumes "\<not> isinstance exc [RuntimeError, OSError]"
      and "user_on_message (self w) = Some cb"
      and "cb m (connected_flag (self w)) (ext w) = (Raised exc, x)"
  shows "on_message h m w = (Raised exc, w\<lparr>ext := x\<rparr>)"
  using assms by (simp add: on_message_def invoke_def call_def)

lemma on_error_uncaught:
  assumes "\<not> isinstance exc [RuntimeError, OSError]"
      and "user_on_error (self w) = Some cb"
      and "cb err (connected_flag (self w)) (ext w) = (Raised exc, x)"
  shows "on_error h err w =
           (Raised exc, (log_call DEBUG ''WebSocket error: %s'' [ExcArg err] w)\<lparr>ext := x\<rparr>)"
  using assms by (simp add: on_error_def Let_def invoke_def call_def)

lemma on_close_uncaught:
  assumes "\<not> isinstance exc [RuntimeError, OSError]"
      and "user_on_close (self w) = Some cb" and "cb code reason False (ext w) = (Raised exc, x)"
  shows "on_close h code reason w =
           (Raised exc, (log_call DEBUG ''WebSocket closed: code=%s reason=%s''
                          [opt_int_arg code, opt_str_arg reason]
                          (w\<lparr>self := (self w)\<lparr>connected_flag := False\<rparr>\<rparr>))\<lparr>ext := x\<rparr>)"
  using assms by (simp add: on_close_def Let_def invoke_def call_def)

text \<open>
  C3. Not every exception a registered callback raises is caught in the forwarding
  handler. The \<^verbatim>\<open>except\<close> clause, commented \<^verbatim>\<open>user callback errors should not kill ws\<close>, names
  \<^verbatim>\<open>RuntimeError\<close> and \<^verbatim>\<open>OSError\<close> only: an exception of any other class raised by the callback
  leaves each of the four handlers, with no warning logged.
\<close>

theorem callback_other_error_propagates:
  assumes "\<not> isinstance exc [RuntimeError, OSError]"
  shows
    "(user_on_open (self w) = Some cbo \<longrightarrow> cbo True (ext w) = (Raised exc, xo) \<longrightarrow>
        on_open h w =
          (Raised exc, (log_call DEBUG ''WebSocket opened'' []
                         (w\<lparr>self := (self w)\<lparr>connected_flag := True\<rparr>\<rparr>))\<lparr>ext := xo\<rparr>)) \<and>
     (user_on_message (self w) = Some cbm \<longrightarrow>
      cbm m (connected_flag (self w)) (ext w) = (Raised exc, xm) \<longrightarrow>
        on_message h m w = (Raised exc, w\<lparr>ext := xm\<rparr>)) \<and>
     (user_on_error (self w) = Some cbe \<longrightarrow>
      cbe err (connected_flag (self w)) (ext w) = (Raised exc, xe) \<longrightarrow>
        on_error h err w =
          (Raised exc, (log_call DEBUG ''WebSocket error: %s'' [ExcArg err] w)\<lparr>ext := xe\<rparr>)) \<and>
     (user_on_close (self w) = Some cbc \<longrightarrow> cbc code reason False (ext w) = (Raised exc, xc) \<longrightarrow>
        on_close h code reason w =
          (Raised exc, (log_call DEBUG ''WebSocket closed: code=%s reason=%s''
                         [opt_int_arg code, opt_str_arg reason]
                         (w\<lparr>self := (self w)\<lparr>connected_flag := False\<rparr>\<rparr>))\<lparr>ext := xc\<rparr>))"
    (is "?open \<and> ?message \<and> ?error \<and> ?close")
proof -
  have o: ?open
    using on_open_uncaught [OF assms, of w cbo xo h] by blast
  have m: ?message
    using on_message_uncaught [OF assms, of w cbm m xm h] by blast
  have e: ?error
    using on_error_uncaught [OF assms, of w cbe err xe h] by blast
  have c: ?close
    using on_close_uncaught [OF assms, of w cbc code reason xc h] by blast
  from o m e c show ?thesis by blast
qed

theorem callback_other_error_propagates_witness:
  "fst (on_open 1 (raising_world (PyExc ValueError ''bad payload'')))
     = Raised (PyExc ValueError ''bad payload'') \<and>
   on_message 1 ''hello'' (raising_world (PyExc ValueError ''bad payload''))
     = (Raised (PyExc ValueError ''bad payload''),
        (raising_world (PyExc ValueError ''bad payload''))\<lparr>ext := [''on_message'', ''hello'']\<rparr>) \<and>
   fst (on_error 1 (PyExc OSError ''down'') (raising_world (PyExc ValueError ''bad payload'')))
     = Raised (PyExc ValueError ''bad payload'') \<and>
   fst (on_close 1 (Some 1000) (Some ''bye'') (raising_world (PyExc ValueError ''bad payload'')))
     = Raised (PyExc ValueError ''bad payload'')"
proof -
  let ?e = "PyExc ValueError ''bad payload''"
  have i: "\<not> isinstance ?e [RuntimeError, OSError]"
    by (simp add: isinstance_def)
  have u: "user_on_open (self (raising_world ?e)) = Some (\<lambda>c x. (Raised ?e, x @ [''on_open'']))"
    "user_on_message (self (raising_world ?e)) = Some (\<lambda>m c x. (Raised ?e, x @ [''on_message'', m]))"
    "user_on_error (self (raising_world ?e)) = Some (\<lambda>e c x. (Raised ?e, x @ [''on_error'']))"
    "user_on_close (self (raising_world ?e)) = Some (\<lambda>code r c x. (Raised ?e, x @ [''on_close'']))"
    "ext (raising_world ?e) = []"
    by (simp_all add: raising_world_def)
  show ?thesis
    using callback_other_error_propagates [OF i, where w = "raising_world ?e"
        and cbo = "\<lambda>c x. (Raised ?e, x @ [''on_open''])" and xo = "[''on_open'']"
        and cbm = "\<lambda>m c x. (Raised ?e, x @ [''on_message'', m])" and m = "''hello''"
        and xm = "[''on_message'', ''hello'']"
        and cbe = "\<lambda>e c x. (Raised ?e, x @ [''on_error''])" and err = "PyExc OSError ''down''"
        and xe = "[''on_error'']"
        and cbc = "\<lambda>code r c x. (Raised ?e, x @ [''on_close''])" and code = "Some 1000"
        and reason = "Some ''bye''" and xc = "[''on_close'']" and h = 1] u
    by simp
qed

section \<open>What each operation does to the client object\<close>

lemma flag_bind:
  assumes "connected_flag (self (snd r)) = c"
      and "\<And>v s. connected_flag (self s) = c \<Longrightarrow> connected_flag (self (snd (k v s))) = c"
  shows "connected_flag (self (snd (bind r k))) = c"
proof (cases r)
  case (Pair o1 s)
  then show ?thesis
    using assms by (cases o1) (simp_all add: bind_def)
qed

lemma connect_flag:
  "connected_flag (self (snd (connect env a b c d k w))) = connected_flag (self w)"
  unfolding connect_def Let_def
  by (intro flag_bind) (simp_all add: build_ws_url_self)

lemma on_error_self: "self (snd (on_error h e w)) = self w"
  by (auto simp: on_error_def Let_def invoke_def call_def try_except_def log_call_def
      split: option.splits prod.splits outcome.splits)

lemma self_try_except:
  assumes "\<And>exc s. self (hdl exc s) = self s"
  shows "self (snd (try_except r cs hdl)) = self (snd r)"
proof (cases r)
  case (Pair o1 s)
  then show ?thesis
    using assms by (cases o1) (simp_all add: try_except_def)
qed

lemma on_open_self: "self (snd (on_open h w)) = (self w)\<lparr>connected_flag := True\<rparr>"
  unfolding on_open_def Let_def
  by (cases "user_on_open (self w)") (simp_all add: self_try_except)

lemma on_close_self:
  "self (snd (on_close h code reason w)) = (self w)\<lparr>connected_flag := False\<rparr>"
  unfolding on_close_def Let_def
  by (cases "user_on_close (self w)") (simp_all add: self_try_except)

lemma disconnect_self:
  "self (snd (disconnect env t w)) =
     (case fst (disconnect env t w) of
        Returned _ \<Rightarrow> (self w)\<lparr>connected_flag := False\<rparr>
      | Raised _ \<Rightarrow> self w)"
  unfolding disconnect_def bind_def call_def try_except_def
  by (auto split: outcome.splits prod.splits option.splits)

lemma disconnect_logged: "logged (snd (disconnect env t w)) = logged w"
  unfolding disconnect_def bind_def call_def try_except_def
  by (auto split: outcome.splits prod.splits option.splits)

lemma disconnect_close_caught:
  assumes "ws (self w) = Some h"
      and "ws_close env h (ext w) = (Raised exc, x)"
      and "isinstance exc [RuntimeError, OSError]"
  shows "disconnect env t w =
     (case thread (self w) of
        None \<Rightarrow> (Returned (), w\<lparr>ext := x, self := (self w)\<lparr>connected_flag := False\<rparr>\<rparr>)
      | Some th \<Rightarrow>
          (case thread_is_alive env th x of
             (alive, x2) \<Rightarrow>
               if alive
               then (case thread_join env th t x2 of
                       (Returned _, x3) \<Rightarrow>
                         (Returned (), w\<lparr>ext := x3, self := (self w)\<lparr>connected_flag := False\<rparr>\<rparr>)
                     | (Raised e, x3) \<Rightarrow> (Raised e, w\<lparr>ext := x3\<rparr>))
               else (Returned (), w\<lparr>ext := x2, self := (self w)\<lparr>connected_flag := False\<rparr>\<rparr>)))"
  using assms
  by (simp add: disconnect_def call_def split: option.splits prod.splits outcome.splits)

lemma disconnect_close_uncaught:
  assumes "ws (self w) = Some h"
      and "ws_close env h (ext w) = (Raised exc, x)"
      and "\<not> isinstance exc [RuntimeError, OSError]"
  shows "disconnect env t w = (Raised exc, w\<lparr>ext := x\<rparr>)"
  using assms by (simp add: disconnect_def call_def)


lemma build_ws_url_fst_cong:
  assumes "access_token (self w1) = access_token (self w2)" and "ext w1 = ext w2"
  shows "fst (build_ws_url env w1) = fst (build_ws_url env w2)"
  using assms unfolding build_ws_url_def bind_def call_def Let_def
  by (auto split: outcome.splits prod.splits option.splits)

text \<open>
  The concrete client: \<^verbatim>\<open>connect\<close> hands the URL and the user-agent header to the websocket
  library and starts the worker; the open event then gives \<open>connected_world\<close>, up to the log
  and the external calls made. \<^verbatim>\<open>disconnect\<close> on it closes, finds the worker alive, joins.
\<close>

lemma demo_connect:
  "connect demo_env None None None None None (demo_world ''abc.def.ghi'') =
     (Returned (),
      \<lparr>self = (init ''abc.def.ghi'' None)\<lparr>ws := Some 1, thread := Some 2\<rparr>,
       logged = [(ModuleLogger, DEBUG, ''Connecting WebSocket to %s'',
         [StrArg ''wss://wsb-us.example.com/ws?accessToken=abc.def.ghi&timestamp=1700000000000''])],
       ext = [''timestamp'', ''import'', ''WebSocketApp'',
         ''wss://wsb-us.example.com/ws?accessToken=abc.def.ghi&timestamp=1700000000000'',
         ''UA: demo/1.0'', ''Thread'', ''start'']\<rparr>)"
  by (simp add: connect_def Let_def build_ws_url_def call_def log_call_def demo_env_def
      demo_login_def demo_world_def init_def)

lemma demo_connect_open:
  "self (snd (on_open 1 (snd (connect demo_env None None None None None
      (demo_world ''abc.def.ghi''))))) = self connected_world"
  by (simp add: demo_connect on_open_self connected_world_def)

lemma demo_disconnect:
  "disconnect demo_env 2 connected_world =
     (Returned (),
      connected_world\<lparr>ext := [''close'', ''is_alive'', ''join''],
                      self := (self connected_world)\<lparr>connected_flag := False\<rparr>\<rparr>)"
  by (simp add: disconnect_def call_def demo_env_def connected_world_def init_def)

section \<open>The connected flag\<close>

text \<open>
  C4, as the code has it. \<^verbatim>\<open>connect\<close>, the message handler and the error handler never change
  the connected flag. It is set by the open handler, cleared by the close handler, and
  cleared by \<^verbatim>\<open>disconnect\<close> itself when \<^verbatim>\<open>disconnect\<close> returns (its last statement); a
  \<^verbatim>\<open>disconnect\<close> that raises leaves the flag as it was.
\<close>

theorem connected_changes_only_in_open_close_disconnect:
  "connected (snd (connect env a b c d k w)) = connected w \<and>
   connected (snd (on_message h m w)) = connected w \<and>
   connected (snd (on_error h err w)) = connected w \<and>
   connected (snd (on_open h w)) = True \<and>
   connected (snd (on_close h code reason w)) = False \<and>
   connected (snd (disconnect env t w))
     = (case fst (disconnect env t w) of Returned _ \<Rightarrow> False | Raised _ \<Rightarrow> connected w)"
proof -
  have 1: "connected (snd (connect env a b c d k w)) = connected w"
    by (simp add: connected_def connect_flag)
  have 2: "connected (snd (on_message h m w)) = connected w"
    by (simp add: connected_def on_message_self)
  have 3: "connected (snd (on_error h err w)) = connected w"
    by (simp add: connected_def on_error_self)
  have 4: "connected (snd (on_open h w)) = True"
    by (simp add: connected_def on_open_self)
  have 5: "connected (snd (on_close h code reason w)) = False"
    by (simp add: connected_def on_close_self)
  have 6: "connected (snd (disconnect env t w))
     = (case fst (disconnect env t w) of Returned _ \<Rightarrow> False | Raised _ \<Rightarrow> connected w)"
    by (cases "fst (disconnect env t w)") (simp_all add: connected_def disconnect_self)
  from 1 2 3 4 5 6 show ?thesis by blast
qed

theorem connected_changes_only_in_open_close_disconnect_witness:
  "connected (snd (connect demo_env None None None None None connected_world)) \<and>
   connected (snd (on_message 1 ''hello'' connected_world)) \<and>
   connected (snd (on_error 1 (PyExc OSError ''down'') connected_world)) \<and>
   connected (snd (on_open 1 (demo_world ''abc.def.ghi''))) \<and>
   \<not> connected (snd (on_close 1 (Some 1000) (Some ''bye'') connected_world)) \<and>
   \<not> connected (snd (disconnect demo_env 2 connected_world))"
proof -
  have c: "connected connected_world"
    by (simp add: connected_def connected_world_def)
  have r: "fst (disconnect demo_env 2 connected_world) = Returned ()"
    by (simp add: demo_disconnect)
  show ?thesis
    using connected_changes_only_in_open_close_disconnect
        [of demo_env None None None None None connected_world 1 "''hello''"
          "PyExc OSError ''down''" "Some 1000" "Some ''bye''" 2]
      connected_changes_only_in_open_close_disconnect
        [of demo_env None None None None None "demo_world ''abc.def.ghi''" 1 "''hello''"
          "PyExc OSError ''down''" "Some 1000" "Some ''bye''" 2] c r
    by simp
qed

text \<open>
  C4 as stated fails: \<^verbatim>\<open>disconnect\<close> assigns the flag directly. On a connected client it
  returns with the flag changed from true to false.
\<close>

theorem disconnect_changes_connected_counterexample:
  "connected connected_world \<and>
   fst (disconnect demo_env 2 connected_world) = Returned () \<and>
   \<not> connected (snd (disconnect demo_env 2 connected_world))"
  unfolding demo_disconnect by (simp add: connected_def connected_world_def)

section \<open>Disconnecting\<close>

text \<open>
  \<^verbatim>\<open>disconnect\<close> wraps \<^verbatim>\<open>close()\<close> in \<^verbatim>\<open>try ... except (RuntimeError, OSError)\<close>. A failure of
  one of these classes is swallowed (lemma \<open>disconnect_close_caught\<close>): here a broken pipe,
  after which the worker is found alive and joined and the flag is cleared.
\<close>

lemma disconnect_close_caught_demo:
  "disconnect (closing_env (PyExc OSError ''broken pipe'')) 2 connected_world =
     (Returned (),
      connected_world\<lparr>ext := [''close'', ''is_alive'', ''join''],
                      self := (self connected_world)\<lparr>connected_flag := False\<rparr>\<rparr>)"
proof -
  let ?env = "closing_env (PyExc OSError ''broken pipe'')"
  have 1: "ws (self connected_world) = Some 1"
    by (simp add: connected_world_def)
  have 2: "ws_close ?env 1 (ext connected_world) = (Raised (PyExc OSError ''broken pipe''), [''close''])"
    by (simp add: closing_env_def connected_world_def)
  have 3: "isinstance (PyExc OSError ''broken pipe'') [RuntimeError, OSError]"
    by (simp add: isinstance_def)
  have 4: "thread (self connected_world) = Some 2"
    by (simp add: connected_world_def)
  have 5: "thread_is_alive ?env 2 [''close''] = (True, [''close'', ''is_alive''])"
    "thread_join ?env 2 2 [''close'', ''is_alive''] = (Returned (), [''close'', ''is_alive'', ''join''])"
    by (simp_all add: closing_env_def demo_env_def)
  show ?thesis
    using disconnect_close_caught [OF 1 2 3, of 2] 4 5 by simp
qed

text \<open>
  C5. Not every failure of \<^verbatim>\<open>close()\<close> is swallowed. The \<^verbatim>\<open>except\<close> clause, commented
  \<^verbatim>\<open>best-effort close\<close>, names \<^verbatim>\<open>RuntimeError\<close> and \<^verbatim>\<open>OSError\<close> only: a failure of any other
  class raised by \<^verbatim>\<open>close()\<close> leaves \<^verbatim>\<open>disconnect\<close> at once, with no \<^verbatim>\<open>is_alive()\<close> or
  \<^verbatim>\<open>join()\<close> call made and the connected flag as it was.
\<close>

theorem disconnect_close_error_propagates:
  assumes "ws (self w) = Some h"
      and "ws_close env h (ext w) = (Raised exc, x)"
      and "\<not> isinstance exc [RuntimeError, OSError]"
  shows "disconnect env t w = (Raised exc, w\<lparr>ext := x\<rparr>) \<and>
         connected (snd (disconnect env t w)) = connected w"
  using disconnect_close_uncaught [OF assms] by (simp add: connected_def)

theorem disconnect_close_error_propagates_witness:
  "disconnect (closing_env already_closed) 2 connected_world
     = (Raised already_closed, connected_world\<lparr>ext := [''close'']\<rparr>) \<and>
   connected connected_world \<and>
   connected (snd (disconnect (closing_env already_closed) 2 connected_world))"
proof -
  have 1: "ws (self connected_world) = Some 1"
    by (simp add: connected_world_def)
  have 2: "ws_close (closing_env already_closed) 1 (ext connected_world)
             = (Raised already_closed, [''close''])"
    by (simp add: closing_env_def connected_world_def)
  have 3: "\<not> isinstance already_closed [RuntimeError, OSError]"
    by (simp add: isinstance_def already_closed_def)
  have c: "connected connected_world"
    by (simp add: connected_def connected_world_def)
  show ?thesis
    using disconnect_close_error_propagates [OF 1 2 3, of 2] c by (simp add: connected_def)
qed

text \<open>
  C6. The \<^verbatim>\<open>connected\<close> property is false on a client just constructed, and false after
  every \<^verbatim>\<open>disconnect\<close> that returns, whatever \<^verbatim>\<open>close()\<close>, \<^verbatim>\<open>is_alive()\<close> and \<^verbatim>\<open>join()\<close> did.
\<close>

theorem connected_false_after_init_and_disconnect:
  "\<not> connected \<lparr>self = init token lg, logged = l, ext = x\<rparr> \<and>
   (fst (disconnect env t w) = Returned () \<longrightarrow> \<not> connected (snd (disconnect env t w)))"
  by (simp add: connected_def init_def disconnect_self)

theorem connected_false_after_init_and_disconnect_witness:
  "\<not> connected (demo_world ''abc.def.ghi'') \<and>
   connected connected_world \<and>
   fst (disconnect demo_env 2 connected_world) = Returned () \<and>
   \<not> connected (snd (disconnect demo_env 2 connected_world))"
proof -
  have r: "fst (disconnect demo_env 2 connected_world) = Returned ()"
    by (simp add: demo_disconnect)
  have c: "connected connected_world"
    by (simp add: connected_def connected_world_def)
  show ?thesis
    using connected_false_after_init_and_disconnect
      [of "''abc.def.ghi''" None "[]" "[]" demo_env 2 connected_world] r c
    by (simp add: demo_world_def)
qed





section \<open>The open event\<close>

text \<open>
  C8. \<^verbatim>\<open>_on_open\<close> sets the flag first and then calls the callback: a registered callback is
  called exactly once, with no argument, and what it reads from the \<^verbatim>\<open>connected\<close> property
  is true whatever the flag was before the event. The flag is true afterwards whatever the
  callback does; when the callback returns the handler returns too. With no callback
  registered the handler only sets the flag and logs, and no external call is made.
\<close>

theorem on_open_sets_connected_then_calls:
  "connected (snd (on_open h w)) \<and>
   (user_on_open (self w) = None \<longrightarrow>
      on_open h w = (Returned (), log_call DEBUG ''WebSocket opened'' []
                                    (w\<lparr>self := (self w)\<lparr>connected_flag := True\<rparr>\<rparr>))) \<and>
   (user_on_open (self w) = Some cb \<longrightarrow>
      ext (snd (on_open h w)) = snd (cb True (ext w)) \<and>
      (\<forall>x. cb True (ext w) = (Returned (), x) \<longrightarrow>
         on_open h w = (Returned (), (log_call DEBUG ''WebSocket opened'' []
                                       (w\<lparr>self := (self w)\<lparr>connected_flag := True\<rparr>\<rparr>))\<lparr>ext := x\<rparr>)))"
proof (intro conjI impI allI)
  show "connected (snd (on_open h w))"
    by (simp add: connected_def on_open_self)
next
  assume "user_on_open (self w) = None"
  then show "on_open h w = (Returned (), log_call DEBUG ''WebSocket opened'' []
                                    (w\<lparr>self := (self w)\<lparr>connected_flag := True\<rparr>\<rparr>))"
    by (simp add: on_open_def Let_def)
next
  assume s: "user_on_open (self w) = Some cb"
  then show "ext (snd (on_open h w)) = snd (cb True (ext w))"
    by (auto simp: on_open_def Let_def invoke_def call_def try_except_def
        split: prod.splits outcome.splits)
  fix x assume "cb True (ext w) = (Returned (), x)"
  with s show "on_open h w = (Returned (), (log_call DEBUG ''WebSocket opened'' []
                                       (w\<lparr>self := (self w)\<lparr>connected_flag := True\<rparr>\<rparr>))\<lparr>ext := x\<rparr>)"
    by (simp add: on_open_def Let_def invoke_def call_def)
qed

theorem on_open_sets_connected_then_calls_witness:
  "\<not> connected listening_world \<and>
   connected (snd (on_open 1 listening_world)) \<and>
   ext (snd (on_open 1 listening_world)) = [''on_open: connected''] \<and>
   fst (on_open 1 listening_world) = Returned () \<and>
   logged (snd (on_open 1 listening_world)) = [(ModuleLogger, DEBUG, ''WebSocket opened'', [])] \<and>
   connected (snd (on_open 1 (demo_world ''abc.def.ghi''))) \<and>
   ext (snd (on_open 1 (demo_world ''abc.def.ghi''))) = []"
proof -
  have s: "user_on_open (self listening_world) = Some open_callback"
    by (simp add: listening_world_def)
  have n: "user_on_open (self (demo_world ''abc.def.ghi'')) = None"
    by (simp add: demo_world_def init_def)
  have x: "ext listening_world = []" "logged listening_world = []"
    "logger (self listening_world) = ModuleLogger"
    "ext (demo_world ''abc.def.ghi'') = []"
    "\<not> connected listening_world"
    by (simp_all add: listening_world_def demo_world_def init_def connected_def)
  have o: "open_callback True [] = (Returned (), [''on_open: connected''])"
    by (simp add: open_callback_def)
  show ?thesis
    using on_open_sets_connected_then_calls [of 1 listening_world open_callback]
      on_open_sets_connected_then_calls [of 1 "demo_world ''abc.def.ghi''" undefined] s n x o
    by (simp add: log_call_def connected_def)
qed

section \<open>The handles\<close>

text \<open>
  C9, as the code has it. \<^verbatim>\<open>disconnect\<close> never assigns \<^verbatim>\<open>_ws\<close> or \<^verbatim>\<open>_thread\<close>: both handles
  are after \<^verbatim>\<open>disconnect\<close> what they were before it.
\<close>

theorem disconnect_keeps_handles:
  "ws (self (snd (disconnect env t w))) = ws (self w) \<and>
   thread (self (snd (disconnect env t w))) = thread (self w)"
  by (cases "fst (disconnect env t w)") (simp_all add: disconnect_self)

theorem disconnect_keeps_handles_witness:
  "ws (self (snd (disconnect demo_env 2 connected_world))) = Some 1 \<and>
   thread (self (snd (disconnect demo_env 2 connected_world))) = Some 2"
  using disconnect_keeps_handles [of demo_env 2 connected_world]
  by (simp add: connected_world_def)

text \<open>
  C9 as stated fails: after \<^verbatim>\<open>disconnect\<close> has returned on a connected client the
  connection handle is still there.
\<close>

theorem disconnect_handle_counterexample:
  "fst (disconnect demo_env 2 connected_world) = Returned () \<and>
   ws (self (snd (disconnect demo_env 2 connected_world))) \<noteq> None"
  unfolding demo_disconnect by (simp add: connected_world_def)

section \<open>A failing connect\<close>

text \<open>
  C10. \<^verbatim>\<open>connect\<close> stores the four callbacks first. When \<^verbatim>\<open>_build_ws_url\<close> then raises,
  \<^verbatim>\<open>connect\<close> raises the same exception, the client holds the new callbacks, and its
  connection handle, worker handle and connected flag are the old ones.
\<close>

theorem connect_not_atomic:
  assumes "fst (build_ws_url env w) = Raised e"
  shows "fst (connect env a b c d k w) = Raised e \<and>
         self (snd (connect env a b c d k w))
           = (self w)\<lparr>user_on_message := a, user_on_error := b,
                       user_on_close := c, user_on_open := d\<rparr> \<and>
         ws (self (snd (connect env a b c d k w))) = ws (self w) \<and>
         thread (self (snd (connect env a b c d k w))) = thread (self w) \<and>
         connected (snd (connect env a b c d k w)) = connected w"
proof -
  let ?w0 = "w\<lparr>self := (self w)\<lparr>user_on_message := a, user_on_error := b,
                user_on_close := c, user_on_open := d\<rparr>\<rparr>"
  have "fst (build_ws_url env ?w0) = fst (build_ws_url env w)"
    by (rule build_ws_url_fst_cong) simp_all
  with assms obtain w' where b: "build_ws_url env ?w0 = (Raised e, w')"
    by (metis prod.collapse)
  then have c: "connect env a b c d k w = (Raised e, w')"
    by (simp add: connect_def Let_def)
  have "self (snd (build_ws_url env ?w0)) = self ?w0"
    by (rule build_ws_url_self)
  with b have s: "self w' = self ?w0"
    by simp
  show ?thesis
    unfolding c connected_def by (simp add: s)
qed

theorem connect_not_atomic_witness:
  "fst (connect (failing_env (PyExc RuntimeError ''clock'')) (Some (\<lambda>m c x. (Returned (), x @ [m])))
          None None None None connected_world) = Raised (PyExc RuntimeError ''clock'') \<and>
   user_on_message (self connected_world) = None \<and>
   user_on_message (self (snd (connect (failing_env (PyExc RuntimeError ''clock''))
          (Some (\<lambda>m c x. (Returned (), x @ [m]))) None None None None connected_world)))
     = Some (\<lambda>m c x. (Returned (), x @ [m])) \<and>
   ws (self (snd (connect (failing_env (PyExc RuntimeError ''clock''))
          (Some (\<lambda>m c x. (Returned (), x @ [m]))) None None None None connected_world))) = Some 1 \<and>
   thread (self (snd (connect (failing_env (PyExc RuntimeError ''clock''))
          (Some (\<lambda>m c x. (Returned (), x @ [m]))) None None None None connected_world))) = Some 2 \<and>
   connected (snd (connect (failing_env (PyExc RuntimeError ''clock''))
          (Some (\<lambda>m c x. (Returned (), x @ [m]))) None None None None connected_world))"
proof -
  have f: "fst (build_ws_url (failing_env (PyExc RuntimeError ''clock'')) connected_world)
             = Raised (PyExc RuntimeError ''clock'')"
    by (simp add: build_ws_url_def call_def failing_env_def demo_env_def connected_world_def
        init_def)
  have p: "user_on_message (self connected_world) = None" "ws (self connected_world) = Some 1"
    "thread (self connected_world) = Some 2" "connected connected_world"
    by (simp_all add: connected_world_def init_def connected_def)
  show ?thesis
    using connect_not_atomic [OF f, of "Some (\<lambda>m c x. (Returned (), x @ [m]))" None None None None] p
    by simp
qed

end
